theory Spec2Isabelle
  imports Main
begin

section \<open>Data model\<close>

text \<open>
  The service of this repository stores items in a key-value table and mirrors each item
  as a serialized object in a blob store. \<^verbatim>\<open>src/app/db.py\<close> holds the class
  \<^verbatim>\<open>Database\<close>, which owns the table client and the blob-store client
  (\<^verbatim>\<open>self.s3 = S3Bucket()\<close>) and performs the dual write.

  An item is a Python dict from field names to the values \<^verbatim>\<open>json.loads\<close> produces:
  \<^verbatim>\<open>None\<close>, booleans, integers (unbounded), floats, strings, lists and dicts. A float is
  kept as a mantissa and a binary exponent; nothing in the program computes with it. The
  field \<^verbatim>\<open>id\<close> is the primary key. A dict is kept as the list of its entries in
  insertion order, the order in which the client library walks it; the lists that stand for
  dicts hold each field name once, and \<open>map_of\<close> is the lookup.
\<close>

datatype json =
    JNull
  | JBool bool
  | JNum int
  | JFloat int int
  | JStr string
  | JArr "json list"
  | JObj "(string \<times> json) list"

type_synonym item = "(string \<times> json) list"

text \<open>
  The body of a blob object is the text \<^verbatim>\<open>json.dumps(item)\<close>. The text is kept
  symbolic, as the serialization of the item it was made from: no operation of the
  repository looks inside it.
\<close>

datatype blob = JsonText item

text \<open>
  Exceptions are values. \<^verbatim>\<open>ClientError code message\<close> is botocore's
  \<^verbatim>\<open>ClientError\<close> with \<^verbatim>\<open>e.response['Error']['Code']\<close> and
  \<^verbatim>\<open>e.response['Error']['Message']\<close>; it is the only exception class the handlers of
  \<^verbatim>\<open>db.py\<close> name. \<^verbatim>\<open>BotoCoreError\<close> stands for the exceptions of the client
  library that are not a \<^verbatim>\<open>ClientError\<close> (a connection that cannot be opened, a
  parameter the library refuses). \<^verbatim>\<open>TypeError\<close> and \<^verbatim>\<open>DecimalException\<close> are
  what the client library's serializer raises for a value it cannot send: Python's
  \<^verbatim>\<open>TypeError\<close>, and the signals of Python's \<^verbatim>\<open>decimal\<close> module
  (\<^verbatim>\<open>decimal.Rounded\<close>, \<^verbatim>\<open>decimal.Inexact\<close>), whose common class is
  \<^verbatim>\<open>decimal.DecimalException\<close>. \<^verbatim>\<open>NameError\<close> and \<^verbatim>\<open>KeyError\<close> are
  Python's own.
\<close>

datatype exn =
    ClientError string string
  | BotoCoreError string
  | TypeError string
  | DecimalException
  | NameError string
  | KeyError string

text \<open>
  Every call that reaches one of the two storage clients is recorded, in order, whether it
  succeeds or raises. The record is not part of the program: it is what makes "which
  operation was attempted, and when" a statement about the model.
\<close>

datatype call =
    TableLoad
  | CreateTable
  | WaitTableExists
  | TableGetItem json
  | TablePutItem item
  | TableDeleteItem json
  | S3GetObject json
  | S3PutObject json blob
  | S3DeleteObject json

text \<open>
  The state the program acts on: the table (\<open>None\<close> while it does not exist), the objects
  of the bucket, what \<^verbatim>\<open>print\<close> has written, and the calls made so far.
\<close>

record db =
  table :: "(string \<rightharpoonup> item) option"
  bucket :: "string \<rightharpoonup> blob"
  stdout :: "string list"
  calls :: "call list"

text \<open>
  The storage services are outside the repository. What they answer to one request of the
  program is given by a \<open>world\<close>: for each client call, \<open>None\<close> when the service
  carries the call out, \<open>Some e\<close> when the call raises \<open>e\<close> (the service refuses
  for a reason of its own, such as throttling, a denied access or the size of an item, or
  cannot be reached). A method of \<^verbatim>\<open>Database\<close> makes each client call at most once, so
  one world describes one method call.
\<close>

record world =
  tbl_load :: "exn option"
  tbl_create :: "exn option"
  tbl_wait :: "exn option"
  tbl_get :: "exn option"
  tbl_put :: "exn option"
  tbl_delete :: "exn option"
  s3_get :: "exn option"
  s3_put :: "exn option"
  s3_delete :: "exn option"

definition healthy :: world where
  "healthy = \<lparr>tbl_load = None, tbl_create = None, tbl_wait = None, tbl_get = None,
     tbl_put = None, tbl_delete = None, s3_get = None, s3_put = None, s3_delete = None\<rparr>"

definition record_call :: "call \<Rightarrow> db \<Rightarrow> db" where
  "record_call c s = s\<lparr>calls := calls s @ [c]\<rparr>"

definition py_print :: "string \<Rightarrow> db \<Rightarrow> db" where
  "py_print m s = s\<lparr>stdout := stdout s @ [m]\<rparr>"

section \<open>The table service\<close>

text \<open>
  \<^verbatim>\<open>_create_table\<close> declares the schema of the table: one hash key \<^verbatim>\<open>id\<close> of
  type \<^verbatim>\<open>S\<close> (lines 22 to 27). The service therefore refuses, with a
  \<^verbatim>\<open>ClientError\<close> of code \<^verbatim>\<open>ValidationException\<close>, a key that is not a non-empty
  string, and answers \<^verbatim>\<open>ResourceNotFoundException\<close> for a table that does not exist.
\<close>

definition key_string :: "json \<Rightarrow> string option" where
  "key_string v = (case v of JStr k \<Rightarrow> (if k = [] then None else Some k) | _ \<Rightarrow> None)"

text \<open>
  Before a request is sent, the table client turns every value of an item or of a key into
  the service's typed form, on the client's side (\<^verbatim>\<open>TypeSerializer\<close> of
  \<^verbatim>\<open>boto3.dynamodb.types\<close>). A float is refused with \<^verbatim>\<open>TypeError\<close>. A number goes
  through a decimal context of 38 digits that traps rounding, so that an integer of more
  than 38 digits raises a signal of the \<^verbatim>\<open>decimal\<close> module. Lists and dicts are walked
  in order, and the first value that is refused ends the call. Neither exception is a
  \<^verbatim>\<open>ClientError\<close>, and nothing has been sent when it is raised.
\<close>

fun first_error :: "exn option list \<Rightarrow> exn option" where
  "first_error [] = None"
| "first_error (None # rs) = first_error rs"
| "first_error (Some e # rs) = Some e"

fun serialize_error :: "json \<Rightarrow> exn option" where
  "serialize_error JNull = None"
| "serialize_error (JBool b) = None"
| "serialize_error (JNum n) = (if 10 ^ 38 \<le> \<bar>n\<bar> then Some DecimalException else None)"
| "serialize_error (JFloat m e) =
     Some (TypeError ''Float types are not supported. Use Decimal types instead.'')"
| "serialize_error (JStr s) = None"
| "serialize_error (JArr vs) = first_error (map serialize_error vs)"
| "serialize_error (JObj kvs) = first_error (map (\<lambda>kv. serialize_error (snd kv)) kvs)"

definition serialize_item_error :: "item \<Rightarrow> exn option" where
  "serialize_item_error item = first_error (map (\<lambda>kv. serialize_error (snd kv)) item)"

definition validation_error :: exn where
  "validation_error =
     ClientError ''ValidationException'' ''One or more parameter values were invalid''"

definition resource_not_found :: exn where
  "resource_not_found =
     ClientError ''ResourceNotFoundException'' ''Requested resource not found''"

definition resource_in_use :: exn where
  "resource_in_use = ClientError ''ResourceInUseException'' ''Table already exists''"

text \<open>\<^verbatim>\<open>self.table.load()\<close>: the existence check.\<close>

definition table_load :: "world \<Rightarrow> db \<Rightarrow> (exn + unit) \<times> db" where
  "table_load w s =
     (let s1 = record_call TableLoad s in
      case tbl_load w of
        Some e \<Rightarrow> (Inl e, s1)
      | None \<Rightarrow>
          (case table s1 of
             None \<Rightarrow> (Inl resource_not_found, s1)
           | Some t \<Rightarrow> (Inr (), s1)))"

text \<open>\<^verbatim>\<open>self.dynamodb.create_table(...)\<close>: a new table has no row.\<close>

definition dynamodb_create_table :: "world \<Rightarrow> db \<Rightarrow> (exn + unit) \<times> db" where
  "dynamodb_create_table w s =
     (let s1 = record_call CreateTable s in
      case tbl_create w of
        Some e \<Rightarrow> (Inl e, s1)
      | None \<Rightarrow>
          (case table s1 of
             Some t \<Rightarrow> (Inl resource_in_use, s1)
           | None \<Rightarrow> (Inr (), s1\<lparr>table := Some Map.empty\<rparr>)))"

text \<open>\<^verbatim>\<open>get_waiter('table_exists').wait(...)\<close>.\<close>

definition waiter_wait :: "world \<Rightarrow> db \<Rightarrow> (exn + unit) \<times> db" where
  "waiter_wait w s =
     (let s1 = record_call WaitTableExists s in
      case tbl_wait w of
        Some e \<Rightarrow> (Inl e, s1)
      | None \<Rightarrow>
          (case table s1 of
             None \<Rightarrow> (Inl (BotoCoreError ''WaiterError''), s1)
           | Some t \<Rightarrow> (Inr (), s1)))"

text \<open>
  \<^verbatim>\<open>self.table.get_item(Key={'id': item_id})\<close>: the key is serialized as the values of
  an item are; the response is a dict that holds the row under \<^verbatim>\<open>'Item'\<close> when there
  is one, and has no such entry otherwise.
\<close>

definition table_get_item :: "world \<Rightarrow> json \<Rightarrow> db \<Rightarrow> (exn + (string \<rightharpoonup> item)) \<times> db" where
  "table_get_item w key s =
     (let s1 = record_call (TableGetItem key) s in
      case tbl_get w of
        Some e \<Rightarrow> (Inl e, s1)
      | None \<Rightarrow>
          (case serialize_error key of
             Some e \<Rightarrow> (Inl e, s1)
           | None \<Rightarrow>
               (case table s1 of
                  None \<Rightarrow> (Inl resource_not_found, s1)
                | Some t \<Rightarrow>
                    (case key_string key of
                       None \<Rightarrow> (Inl validation_error, s1)
                     | Some k \<Rightarrow>
                         (case t k of
                            None \<Rightarrow> (Inr Map.empty, s1)
                          | Some row \<Rightarrow> (Inr [''Item'' \<mapsto> row], s1))))))"

text \<open>
  \<^verbatim>\<open>self.table.put_item(Item=item)\<close>: the item is serialized first, on the client's
  side, and an item with a value that is refused there raises before any request, whatever
  the service would have answered. An item that is sent creates or overwrites the row of
  its key.
\<close>

definition table_put_item :: "world \<Rightarrow> item \<Rightarrow> db \<Rightarrow> (exn + unit) \<times> db" where
  "table_put_item w item s =
     (let s1 = record_call (TablePutItem item) s in
      case serialize_item_error item of
        Some e \<Rightarrow> (Inl e, s1)
      | None \<Rightarrow>
          (case tbl_put w of
             Some e \<Rightarrow> (Inl e, s1)
           | None \<Rightarrow>
               (case table s1 of
                  None \<Rightarrow> (Inl resource_not_found, s1)
                | Some t \<Rightarrow>
                    (case map_of item ''id'' of
                       None \<Rightarrow> (Inl validation_error, s1)
                     | Some v \<Rightarrow>
                         (case key_string v of
                            None \<Rightarrow> (Inl validation_error, s1)
                          | Some k \<Rightarrow>
                              (Inr (), s1\<lparr>table := Some (t(k \<mapsto> item))\<rparr>))))))"

text \<open>
  \<^verbatim>\<open>self.table.delete_item(Key={'id': item_id})\<close>: the key is serialized; the call
  removes the row, and a key with no row is not an error.
\<close>

definition table_delete_item :: "world \<Rightarrow> json \<Rightarrow> db \<Rightarrow> (exn + unit) \<times> db" where
  "table_delete_item w key s =
     (let s1 = record_call (TableDeleteItem key) s in
      case tbl_delete w of
        Some e \<Rightarrow> (Inl e, s1)
      | None \<Rightarrow>
          (case serialize_error key of
             Some e \<Rightarrow> (Inl e, s1)
           | None \<Rightarrow>
               (case table s1 of
                  None \<Rightarrow> (Inl resource_not_found, s1)
                | Some t \<Rightarrow>
                    (case key_string key of
                       None \<Rightarrow> (Inl validation_error, s1)
                     | Some k \<Rightarrow> (Inr (), s1\<lparr>table := Some (t(k := None))\<rparr>)))))"

section \<open>The blob-store client\<close>

text \<open>
  Modelled from the spec: the class \<^verbatim>\<open>S3Bucket\<close> of \<^verbatim>\<open>app/s3.py\<close>, which
  \<^verbatim>\<open>db.py\<close> imports and which is not among the sources. Section 4.2 of the
  specification: \<^verbatim>\<open>put(id, serialized_payload)\<close> writes or overwrites the object named
  \<^verbatim>\<open>id\<close>; \<^verbatim>\<open>get(id)\<close> gives its bytes or absent; \<^verbatim>\<open>delete(id)\<close> removes
  the object, and absence is not an error. Objects are "identified by a string key": a key
  that is no string is refused by the client library. An exception of the service reaches
  the caller, \<^verbatim>\<open>Database\<close>, whose handlers are written around these calls.
\<close>

text \<open>
  Modelled from the spec: \<^verbatim>\<open>S3Bucket.put_object\<close> of the absent \<^verbatim>\<open>app/s3.py\<close>; it "writes/overwrites
  a blob object named id with the given bytes".
\<close>

definition S3Bucket_put_object :: "world \<Rightarrow> json \<Rightarrow> blob \<Rightarrow> db \<Rightarrow> (exn + unit) \<times> db" where
  "S3Bucket_put_object w key body s =
     (let s1 = record_call (S3PutObject key body) s in
      case s3_put w of
        Some e \<Rightarrow> (Inl e, s1)
      | None \<Rightarrow>
          (case key of
             JStr k \<Rightarrow> (Inr (), s1\<lparr>bucket := (bucket s1)(k \<mapsto> body)\<rparr>)
           | _ \<Rightarrow> (Inl (BotoCoreError ''ParamValidationError''), s1)))"

text \<open>
  Modelled from the spec: \<^verbatim>\<open>S3Bucket.get_object\<close> of the absent \<^verbatim>\<open>app/s3.py\<close>;
  \<^verbatim>\<open>get(id) -> bytes | absent\<close>.
\<close>

definition S3Bucket_get_object :: "world \<Rightarrow> json \<Rightarrow> db \<Rightarrow> (exn + blob option) \<times> db" where
  "S3Bucket_get_object w key s =
     (let s1 = record_call (S3GetObject key) s in
      case s3_get w of
        Some e \<Rightarrow> (Inl e, s1)
      | None \<Rightarrow>
          (case key of
             JStr k \<Rightarrow> (Inr (bucket s1 k), s1)
           | _ \<Rightarrow> (Inl (BotoCoreError ''ParamValidationError''), s1)))"

text \<open>
  Modelled from the spec: \<^verbatim>\<open>S3Bucket.delete_object\<close> of the absent \<^verbatim>\<open>app/s3.py\<close>; it "removes
  the object named id; absence is not an error".
\<close>

definition S3Bucket_delete_object :: "world \<Rightarrow> json \<Rightarrow> db \<Rightarrow> (exn + unit) \<times> db" where
  "S3Bucket_delete_object w key s =
     (let s1 = record_call (S3DeleteObject key) s in
      case s3_delete w of
        Some e \<Rightarrow> (Inl e, s1)
      | None \<Rightarrow>
          (case key of
             JStr k \<Rightarrow> (Inr (), s1\<lparr>bucket := (bucket s1)(k := None)\<rparr>)
           | _ \<Rightarrow> (Inl (BotoCoreError ''ParamValidationError''), s1)))"

section \<open>The class Database of db.py\<close>

text \<open>
  The names bound in the module \<^verbatim>\<open>db.py\<close>: its four imports (lines 1 to 4) and the
  class it defines. A name that a method reads and does not bind itself is looked up here
  and then among the builtins, of which the module uses \<^verbatim>\<open>print\<close>; a name found in
  neither raises \<^verbatim>\<open>NameError\<close>.
\<close>

definition db_module_names :: "string list" where
  "db_module_names = [''boto3'', ''os'', ''ClientError'', ''S3Bucket'', ''Database'']"

definition builtin_names :: "string list" where
  "builtin_names = [''print'']"

definition load_global :: "string \<Rightarrow> exn + unit" where
  "load_global n =
     (if n \<in> set db_module_names \<or> n \<in> set builtin_names then Inr () else Inl (NameError n))"

text \<open>\<^verbatim>\<open>item['id']\<close>: a missing key raises \<^verbatim>\<open>KeyError\<close>.\<close>

definition getitem :: "item \<Rightarrow> string \<Rightarrow> exn + json" where
  "getitem item k = (case map_of item k of None \<Rightarrow> Inl (KeyError k) | Some v \<Rightarrow> Inr v)"

text \<open>
  The handler the three data methods share,
  \<^verbatim>\<open>except ClientError as e: print(e.response['Error']['Message'])\<close>:
  a \<^verbatim>\<open>ClientError\<close> is printed and the method goes on (to its end, returning
  \<^verbatim>\<open>None\<close>); any other exception is not caught and leaves the method.
\<close>

definition except_ClientError :: "exn \<Rightarrow> db \<Rightarrow> (exn + unit) \<times> db" where
  "except_ClientError e s =
     (case e of
        ClientError code msg \<Rightarrow> (Inr (), py_print msg s)
      | _ \<Rightarrow> (Inl e, s))"

text \<open>
  \<^verbatim>\<open>_create_table\<close> (lines 15 to 33). The handler acts on the code
  \<^verbatim>\<open>ResourceNotFoundException\<close> only and has no \<^verbatim>\<open>else\<close>: a
  \<^verbatim>\<open>ClientError\<close> of another code ends the \<^verbatim>\<open>except\<close> block and the method
  returns. The two calls of the creating branch are inside the handler, outside any
  \<^verbatim>\<open>try\<close>: what they raise leaves the method.
\<close>

definition Database_create_table :: "world \<Rightarrow> db \<Rightarrow> (exn + unit) \<times> db" where
  "Database_create_table w s =
     (case table_load w s of
        (Inr u, s1) \<Rightarrow> (Inr (), s1)
      | (Inl e, s1) \<Rightarrow>
          (case e of
             ClientError code msg \<Rightarrow>
               (if code = ''ResourceNotFoundException'' then
                  (case dynamodb_create_table w s1 of
                     (Inl e2, s2) \<Rightarrow> (Inl e2, s2)
                   | (Inr u, s2) \<Rightarrow> waiter_wait w s2)
                else (Inr (), s1))
           | _ \<Rightarrow> (Inl e, s1)))"

text \<open>\<^verbatim>\<open>get_item\<close> (lines 35 to 41); the result is \<^verbatim>\<open>response.get('Item')\<close>.\<close>

definition get_item :: "world \<Rightarrow> json \<Rightarrow> db \<Rightarrow> (exn + item option) \<times> db" where
  "get_item w item_id s =
     (case table_get_item w item_id s of
        (Inr response, s1) \<Rightarrow> (Inr (response ''Item''), s1)
      | (Inl e, s1) \<Rightarrow>
          (case e of
             ClientError code msg \<Rightarrow> (Inr None, py_print msg s1)
           | _ \<Rightarrow> (Inl e, s1)))"

text \<open>
  \<^verbatim>\<open>put_item\<close> (lines 43 to 48). The second statement,
  \<^verbatim>\<open>self.s3.put_object(item['id'], json.dumps(item))\<close>, evaluates its arguments from
  left to right before it calls: \<^verbatim>\<open>item['id']\<close>, then the name \<^verbatim>\<open>json\<close>, then
  \<^verbatim>\<open>json.dumps(item)\<close>, and only then \<^verbatim>\<open>put_object\<close>.
\<close>

definition put_item :: "world \<Rightarrow> item \<Rightarrow> db \<Rightarrow> (exn + unit) \<times> db" where
  "put_item w item s =
     (case table_put_item w item s of
        (Inl e, s1) \<Rightarrow> except_ClientError e s1
      | (Inr u, s1) \<Rightarrow>
          (case getitem item ''id'' of
             Inl e \<Rightarrow> except_ClientError e s1
           | Inr key \<Rightarrow>
               (case load_global ''json'' of
                  Inl e \<Rightarrow> except_ClientError e s1
                | Inr u \<Rightarrow>
                    (case S3Bucket_put_object w key (JsonText item) s1 of
                       (Inl e, s2) \<Rightarrow> except_ClientError e s2
                     | (Inr u, s2) \<Rightarrow> (Inr (), s2)))))"

text \<open>\<^verbatim>\<open>delete_item\<close> (lines 50 to 55).\<close>

definition delete_item :: "world \<Rightarrow> json \<Rightarrow> db \<Rightarrow> (exn + unit) \<times> db" where
  "delete_item w item_id s =
     (case table_delete_item w item_id s of
        (Inl e, s1) \<Rightarrow> except_ClientError e s1
      | (Inr u, s1) \<Rightarrow>
          (case S3Bucket_delete_object w item_id s1 of
             (Inl e, s2) \<Rightarrow> except_ClientError e s2
           | (Inr u, s2) \<Rightarrow> (Inr (), s2)))"

section \<open>The request handler\<close>

text \<open>
  Modelled from the spec: the class \<^verbatim>\<open>RequestHandler\<close> of \<^verbatim>\<open>app/server.py\<close>,
  which the tests import and which is not among the sources. Sections 4.3 and 6 of the
  specification give its routes:
  \<^item> \<^verbatim>\<open>GET /item/{id}\<close>: look the id up in the table store; 200 with the item if found,
    404 with \<^verbatim>\<open>{"error":"Item not found"}\<close> if absent;
  \<^item> \<^verbatim>\<open>GET /item/\<close> (no id): 400 with \<^verbatim>\<open>{"error":"Item ID not provided"}\<close>;
  \<^item> \<^verbatim>\<open>POST /item\<close>: if an item with that id already exists (pre-check via get), 409
    with \<^verbatim>\<open>{"error":"Item already exists"}\<close>; otherwise write, and 201 with
    \<^verbatim>\<open>{"message":"Item created"}\<close>;
  \<^item> \<^verbatim>\<open>PUT /item\<close>: if the item does not exist, 404 with
    \<^verbatim>\<open>{"error":"Item not found"}\<close>; otherwise overwrite, and 200 with
    \<^verbatim>\<open>{"message":"Item updated"}\<close>;
  \<^item> \<^verbatim>\<open>DELETE /item/{id}\<close>: if the item does not exist, 404 with
    \<^verbatim>\<open>{"error":"Item not found"}\<close>; otherwise delete, and 200 with
    \<^verbatim>\<open>{"message":"Item deleted"}\<close>;
  \<^item> \<^verbatim>\<open>GET /shutdown\<close> stops the server.

  The handler reaches the two stores through the methods of \<^verbatim>\<open>Database\<close> above. The
  presence of the id in a body is checked "implicitly via key-lookup" (section 1), so a body
  with no \<^verbatim>\<open>id\<close> raises \<^verbatim>\<open>KeyError\<close>; an exception that leaves a method of
  \<^verbatim>\<open>Database\<close> ends the request ("an unhandled exception terminating the request",
  section 7). A request that matches no route has the reply \<open>Unrouted\<close>: the
  specification does not say what is sent.
\<close>

datatype body = ItemBody item | ErrorBody string | MessageBody string

datatype reply = Reply nat body | ServerStop | Unrouted

datatype request = GET string | POST string item | PUT string item | DELETE string

text \<open>
  Modelled from the spec: the id segment of a path \<^verbatim>\<open>/item/{id}\<close>, as the absent
  \<^verbatim>\<open>app/server.py\<close> reads it: what follows \<^verbatim>\<open>/item/\<close>, which is empty for the path
  \<^verbatim>\<open>/item/\<close>.
\<close>

definition item_path_id :: "string \<Rightarrow> string option" where
  "item_path_id path = (if take 6 path = ''/item/'' then Some (drop 6 path) else None)"

text \<open>
  Modelled from the spec: the GET routes of the absent \<^verbatim>\<open>app/server.py\<close>.
\<close>

definition do_GET :: "world \<Rightarrow> string \<Rightarrow> db \<Rightarrow> (exn + reply) \<times> db" where
  "do_GET w path s =
     (if path = ''/shutdown'' then (Inr ServerStop, s)
      else
        (case item_path_id path of
           None \<Rightarrow> (Inr Unrouted, s)
         | Some k \<Rightarrow>
             (if k = [] then (Inr (Reply 400 (ErrorBody ''Item ID not provided'')), s)
              else
                (case get_item w (JStr k) s of
                   (Inl e, s1) \<Rightarrow> (Inl e, s1)
                 | (Inr None, s1) \<Rightarrow> (Inr (Reply 404 (ErrorBody ''Item not found'')), s1)
                 | (Inr (Some found), s1) \<Rightarrow> (Inr (Reply 200 (ItemBody found)), s1)))))"

text \<open>
  Modelled from the spec: the POST route of the absent \<^verbatim>\<open>app/server.py\<close>.
\<close>

definition do_POST :: "world \<Rightarrow> string \<Rightarrow> item \<Rightarrow> db \<Rightarrow> (exn + reply) \<times> db" where
  "do_POST w path item s =
     (if path \<noteq> ''/item'' then (Inr Unrouted, s)
      else
        (case getitem item ''id'' of
           Inl e \<Rightarrow> (Inl e, s)
         | Inr key \<Rightarrow>
             (case get_item w key s of
                (Inl e, s1) \<Rightarrow> (Inl e, s1)
              | (Inr (Some existing), s1) \<Rightarrow>
                  (Inr (Reply 409 (ErrorBody ''Item already exists'')), s1)
              | (Inr None, s1) \<Rightarrow>
                  (case put_item w item s1 of
                     (Inl e, s2) \<Rightarrow> (Inl e, s2)
                   | (Inr u, s2) \<Rightarrow> (Inr (Reply 201 (MessageBody ''Item created'')), s2)))))"

text \<open>
  Modelled from the spec: the PUT route of the absent \<^verbatim>\<open>app/server.py\<close>.
\<close>

definition do_PUT :: "world \<Rightarrow> string \<Rightarrow> item \<Rightarrow> db \<Rightarrow> (exn + reply) \<times> db" where
  "do_PUT w path item s =
     (if path \<noteq> ''/item'' then (Inr Unrouted, s)
      else
        (case getitem item ''id'' of
           Inl e \<Rightarrow> (Inl e, s)
         | Inr key \<Rightarrow>
             (case get_item w key s of
                (Inl e, s1) \<Rightarrow> (Inl e, s1)
              | (Inr None, s1) \<Rightarrow> (Inr (Reply 404 (ErrorBody ''Item not found'')), s1)
              | (Inr (Some existing), s1) \<Rightarrow>
                  (case put_item w item s1 of
                     (Inl e, s2) \<Rightarrow> (Inl e, s2)
                   | (Inr u, s2) \<Rightarrow> (Inr (Reply 200 (MessageBody ''Item updated'')), s2)))))"

text \<open>
  Modelled from the spec: the DELETE route of the absent \<^verbatim>\<open>app/server.py\<close>. The one
  pattern of the method is \<^verbatim>\<open>/item/{id}\<close>, so that a path with no id matches no route.
\<close>

definition do_DELETE :: "world \<Rightarrow> string \<Rightarrow> db \<Rightarrow> (exn + reply) \<times> db" where
  "do_DELETE w path s =
     (case item_path_id path of
        None \<Rightarrow> (Inr Unrouted, s)
      | Some k \<Rightarrow>
          (if k = [] then (Inr Unrouted, s)
           else
             (case get_item w (JStr k) s of
                (Inl e, s1) \<Rightarrow> (Inl e, s1)
              | (Inr None, s1) \<Rightarrow> (Inr (Reply 404 (ErrorBody ''Item not found'')), s1)
              | (Inr (Some existing), s1) \<Rightarrow>
                  (case delete_item w (JStr k) s1 of
                     (Inl e, s2) \<Rightarrow> (Inl e, s2)
                   | (Inr u, s2) \<Rightarrow> (Inr (Reply 200 (MessageBody ''Item deleted'')), s2)))))"

text \<open>
  Modelled from the spec: the dispatch by method of the absent \<^verbatim>\<open>app/server.py\<close>.
\<close>

definition handle :: "world \<Rightarrow> request \<Rightarrow> db \<Rightarrow> (exn + reply) \<times> db" where
  "handle w req s =
     (case req of
        GET path \<Rightarrow> do_GET w path s
      | POST path item \<Rightarrow> do_POST w path item s
      | PUT path item \<Rightarrow> do_PUT w path item s
      | DELETE path \<Rightarrow> do_DELETE w path s)"

section \<open>Concrete inputs\<close>

text \<open>
  The item of the repository's tests, \<^verbatim>\<open>{'id': '1', 'name': 'Item 1'}\<close>, and the state
  the tests start from: the table exists and both stores are empty.
\<close>

definition item_1 :: item where
  "item_1 = [(''id'', JStr ''1''), (''name'', JStr ''Item 1'')]"

text \<open>A dict with no \<^verbatim>\<open>id\<close>, \<^verbatim>\<open>{'name': 'Item 1'}\<close>.\<close>

definition item_without_id :: item where
  "item_without_id = [(''name'', JStr ''Item 1'')]"

definition empty_stores :: db where
  "empty_stores = \<lparr>table = Some Map.empty, bucket = Map.empty, stdout = [], calls = []\<rparr>"

definition stores_with_item_1 :: db where
  "stores_with_item_1 =
     \<lparr>table = Some [''1'' \<mapsto> item_1], bucket = [''1'' \<mapsto> JsonText item_1],
      stdout = [], calls = []\<rparr>"

definition no_table :: db where
  "no_table = \<lparr>table = None, bucket = Map.empty, stdout = [], calls = []\<rparr>"

text \<open>Worlds in which one call of the table client raises.\<close>

definition load_denied :: world where
  "load_denied =
     healthy\<lparr>tbl_load := Some (ClientError ''AccessDeniedException'' ''Access denied'')\<rparr>"

definition load_unreachable :: world where
  "load_unreachable =
     healthy\<lparr>tbl_load := Some (BotoCoreError ''EndpointConnectionError'')\<rparr>"

definition get_unreachable :: world where
  "get_unreachable = healthy\<lparr>tbl_get := Some (BotoCoreError ''EndpointConnectionError'')\<rparr>"

definition get_throttled :: world where
  "get_throttled =
     healthy\<lparr>tbl_get := Some (ClientError ''ThrottlingException'' ''Rate exceeded'')\<rparr>"

text \<open>Whether an exception is matched by \<^verbatim>\<open>except ClientError\<close>.\<close>

fun is_ClientError :: "exn \<Rightarrow> bool" where
  "is_ClientError (ClientError code msg) = True"
| "is_ClientError e = False"

section \<open>Facts about the clients and the methods\<close>

lemmas client_defs = record_call_def py_print_def key_string_def validation_error_def
  resource_not_found_def resource_in_use_def table_load_def dynamodb_create_table_def
  waiter_wait_def table_get_item_def table_put_item_def table_delete_item_def
  S3Bucket_put_object_def S3Bucket_get_object_def S3Bucket_delete_object_def Let_def

text \<open>A key the table accepts is a string, which the serializer sends as it is.\<close>

lemma key_string_serializes: "key_string key = Some k \<Longrightarrow> serialize_error key = None"
  by (cases key) (simp_all add: key_string_def)

lemma key_string_JStr: "key_string key = Some k \<Longrightarrow> key = JStr k"
  by (cases key) (simp_all add: key_string_def split: if_splits)

text \<open>The name \<^verbatim>\<open>json\<close> is bound nowhere in \<^verbatim>\<open>db.py\<close>.\<close>

lemma load_global_json: "load_global ''json'' = Inl (NameError ''json'')"
  by (simp add: load_global_def db_module_names_def builtin_names_def)

lemma put_item_calls: "calls (snd (put_item w item s)) = calls s @ [TablePutItem item]"
  by (simp add: put_item_def load_global_json getitem_def except_ClientError_def client_defs
      split: option.splits exn.splits sum.splits prod.splits json.splits)

lemma put_item_bucket: "bucket (snd (put_item w item s)) = bucket s"
  by (simp add: put_item_def load_global_json getitem_def except_ClientError_def client_defs
      split: option.splits exn.splits sum.splits prod.splits json.splits)

lemma put_item_accepted:
  assumes "table s = Some t" "map_of item ''id'' = Some (JStr k)" "k \<noteq> []"
    "serialize_item_error item = None" "tbl_put w = None"
  shows "put_item w item s =
    (Inl (NameError ''json''),
     s\<lparr>table := Some (t(k \<mapsto> item)), calls := calls s @ [TablePutItem item]\<rparr>)"
  using assms
  by (simp add: put_item_def load_global_json getitem_def except_ClientError_def client_defs)

lemma put_item_table_ClientError:
  assumes "serialize_item_error item = None" "tbl_put w = Some (ClientError code msg)"
  shows "put_item w item s =
    (Inr (), s\<lparr>stdout := stdout s @ [msg], calls := calls s @ [TablePutItem item]\<rparr>)"
  using assms
  by (simp add: put_item_def except_ClientError_def client_defs)

lemma get_item_found:
  assumes "table s = Some t" "key_string key = Some k" "tbl_get w = None"
  shows "get_item w key s = (Inr (t k), s\<lparr>calls := calls s @ [TableGetItem key]\<rparr>)"
  using assms key_string_serializes [of key k]
  by (simp add: get_item_def table_get_item_def record_call_def Let_def split: option.splits)

lemma get_item_ClientError:
  assumes "tbl_get w = Some (ClientError code msg)"
  shows "get_item w key s =
    (Inr None, s\<lparr>stdout := stdout s @ [msg], calls := calls s @ [TableGetItem key]\<rparr>)"
  using assms
  by (simp add: get_item_def table_get_item_def record_call_def py_print_def Let_def)

lemma get_item_not_ClientError:
  assumes "tbl_get w = Some e" "\<not> is_ClientError e"
  shows "get_item w key s = (Inl e, s\<lparr>calls := calls s @ [TableGetItem key]\<rparr>)"
  using assms
  by (cases e) (simp_all add: get_item_def table_get_item_def record_call_def Let_def)

lemma get_item_stores:
  "table (snd (get_item w key s)) = table s \<and> bucket (snd (get_item w key s)) = bucket s \<and>
   calls (snd (get_item w key s)) = calls s @ [TableGetItem key]"
  by (simp add: get_item_def client_defs split: option.splits exn.splits)

lemma get_item_absent:
  assumes "table s = Some t" "t k = None" "tbl_get w = None"
  shows "fst (get_item w (JStr k) s) = Inr None"
  using assms
  by (simp add: get_item_def client_defs)

lemma delete_item_done:
  assumes "table s = Some t" "key_string key = Some k" "tbl_delete w = None"
    "s3_delete w = None"
  shows "delete_item w key s =
    (Inr (), s\<lparr>table := Some (t(k := None)), bucket := (bucket s)(k := None),
        calls := calls s @ [TableDeleteItem key, S3DeleteObject key]\<rparr>)"
  using assms key_string_JStr [of key k]
  by (auto simp add: delete_item_def client_defs split: if_splits)

text \<open>The table refuses the empty key; \<^verbatim>\<open>delete_item\<close> prints and returns.\<close>

lemma delete_item_refused:
  assumes "table s = Some t" "tbl_delete w = None"
  shows "fst (delete_item w (JStr []) s) = Inr () \<and>
    table (snd (delete_item w (JStr []) s)) = table s \<and>
    bucket (snd (delete_item w (JStr []) s)) = bucket s"
  using assms
  by (simp add: delete_item_def except_ClientError_def table_delete_item_def
      validation_error_def key_string_def record_call_def py_print_def Let_def)

text \<open>
  The order of the two calls of \<^verbatim>\<open>delete_item\<close>, and the table after it: the table
  call comes first, the blob call follows when the table call did not raise, and the row
  stays removed whatever the blob call does.
\<close>

lemma delete_item_order:
  "calls (snd (delete_item w key s)) = calls s @ [TableDeleteItem key] \<or>
   calls (snd (delete_item w key s)) = calls s @ [TableDeleteItem key, S3DeleteObject key]"
  by (simp add: delete_item_def except_ClientError_def client_defs
      split: option.splits exn.splits json.splits)

lemma delete_item_no_rollback:
  assumes "table s = Some t" "key_string key = Some k" "tbl_delete w = None"
  shows "table (snd (delete_item w key s)) = Some (t(k := None))"
  using assms key_string_JStr [of key k]
  by (auto simp add: delete_item_def except_ClientError_def client_defs
      split: json.splits if_splits option.splits exn.splits)

lemma create_table_other_code:
  assumes "tbl_load w = Some (ClientError code msg)" "code \<noteq> ''ResourceNotFoundException''"
  shows "Database_create_table w s = (Inr (), s\<lparr>calls := calls s @ [TableLoad]\<rparr>)"
  using assms
  by (simp add: Database_create_table_def table_load_def record_call_def Let_def)

lemma create_table_not_ClientError:
  assumes "tbl_load w = Some e" "\<not> is_ClientError e"
  shows "Database_create_table w s = (Inl e, s\<lparr>calls := calls s @ [TableLoad]\<rparr>)"
  using assms
  by (cases e) (simp_all add: Database_create_table_def table_load_def record_call_def Let_def)

text \<open>A table that does not exist is created, empty, and waited for.\<close>

lemma create_table_absent:
  assumes "table s = None" "tbl_load w = None" "tbl_create w = None" "tbl_wait w = None"
  shows "Database_create_table w s =
    (Inr (), s\<lparr>table := Some Map.empty,
        calls := calls s @ [TableLoad, CreateTable, WaitTableExists]\<rparr>)"
  using assms
  by (simp add: Database_create_table_def client_defs)

lemma item_path_id_item: "item_path_id (''/item/'' @ k) = Some k"
  by (simp add: item_path_id_def)

section \<open>The claims\<close>

text \<open>
  C2. For every item, \<^verbatim>\<open>put_item\<close> modifies the table store and then raises an
  uncaught \<^verbatim>\<open>NameError\<close> before any blob-store write, because the name \<^verbatim>\<open>json\<close>
  of its blob-write call is never imported in \<^verbatim>\<open>db.py\<close> and the handler catches
  \<^verbatim>\<open>ClientError\<close> only; no call of \<^verbatim>\<open>put_item\<close> ever writes the blob store, and the
  table is changed although the call errors.

  As stated the claim fails: for the dict \<^verbatim>\<open>{'name': 'Item 1'}\<close>, which has no
  \<^verbatim>\<open>id\<close>, with both services answering, the table refuses the write with a
  \<^verbatim>\<open>ClientError\<close>, which the handler catches: \<^verbatim>\<open>put_item\<close> returns normally,
  no \<^verbatim>\<open>NameError\<close> is raised, and the table is as it was.
\<close>

theorem put_item_without_id_returns:
  "fst (put_item healthy item_without_id empty_stores) = Inr () \<and>
   table (snd (put_item healthy item_without_id empty_stores)) = table empty_stores \<and>
   bucket (snd (put_item healthy item_without_id empty_stores)) = bucket empty_stores \<and>
   calls (snd (put_item healthy item_without_id empty_stores)) =
     [TablePutItem item_without_id]"
  by (simp add: put_item_def except_ClientError_def client_defs serialize_item_error_def
      healthy_def item_without_id_def empty_stores_def)

text \<open>
  C2, amended. For every item whose table write is accepted (the table exists, the item
  has a non-empty string id, each of its values can be serialized, and the service carries
  the write out), \<^verbatim>\<open>put_item\<close> modifies the table store and then raises an uncaught
  \<^verbatim>\<open>NameError\<close> before any blob-store write, for the reason the claim gives; the table
  then holds the item although the call errors. For every item and every answer of the
  services, no call of \<^verbatim>\<open>put_item\<close> writes the blob store: the bucket after the call
  is the bucket before it, and the only call made is the table's \<^verbatim>\<open>put_item\<close>.
\<close>

theorem put_item_raises_NameError:
  "(table s = Some t \<and> map_of item ''id'' = Some (JStr k) \<and> k \<noteq> [] \<and>
    serialize_item_error item = None \<and> tbl_put w = None \<longrightarrow>
      put_item w item s =
        (Inl (NameError ''json''),
         s\<lparr>table := Some (t(k \<mapsto> item)), calls := calls s @ [TablePutItem item]\<rparr>)) \<and>
   bucket (snd (put_item w item s)) = bucket s \<and>
   calls (snd (put_item w item s)) = calls s @ [TablePutItem item]"
  using put_item_accepted [of s t item k w] put_item_bucket [of w item s]
    put_item_calls [of w item s]
  by blast

theorem put_item_raises_NameError_witness:
  "table empty_stores = Some Map.empty \<and> map_of item_1 ''id'' = Some (JStr ''1'') \<and>
   ''1'' \<noteq> [] \<and> serialize_item_error item_1 = None \<and> tbl_put healthy = None \<and>
   put_item healthy item_1 empty_stores =
     (Inl (NameError ''json''),
      empty_stores\<lparr>table := Some [''1'' \<mapsto> item_1], calls := [TablePutItem item_1]\<rparr>) \<and>
   bucket (snd (put_item healthy item_1 empty_stores)) = Map.empty"
  using put_item_raises_NameError
    [where s = empty_stores and t = Map.empty and item = item_1 and k = "''1''"
       and w = healthy]
  by (simp add: empty_stores_def item_1_def healthy_def serialize_item_error_def)

text \<open>
  C1. For every item with a non-empty string id, creating the item with \<^verbatim>\<open>put_item\<close>
  and then fetching by that id returns a value equal to what was created, both from the
  table store (\<^verbatim>\<open>get_item\<close>) and from the blob store's mirrored serialized copy.

  The code at the item of the tests, on empty stores and with both services answering:
  \<^verbatim>\<open>put_item\<close> raises \<^verbatim>\<open>NameError\<close>; the table then returns the item, and the
  blob store has no object under the id.
\<close>

theorem put_item_then_fetch_item_1:
  "fst (put_item healthy item_1 empty_stores) = Inl (NameError ''json'') \<and>
   fst (get_item healthy (JStr ''1'') (snd (put_item healthy item_1 empty_stores))) =
     Inr (Some item_1) \<and>
   fst (S3Bucket_get_object healthy (JStr ''1'') (snd (put_item healthy item_1 empty_stores))) =
     Inr None"
  by (simp add: put_item_def load_global_json getitem_def except_ClientError_def client_defs
      serialize_item_error_def get_item_def healthy_def item_1_def empty_stores_def)

text \<open>
  C3. During initialization (\<^verbatim>\<open>_create_table\<close>), any error raised by the
  table-existence check other than a "not found" error is surfaced to the caller rather
  than being swallowed.

  As stated the claim fails: when \<^verbatim>\<open>load\<close> raises a \<^verbatim>\<open>ClientError\<close> of code
  \<^verbatim>\<open>AccessDeniedException\<close> on a table that does not exist, \<^verbatim>\<open>_create_table\<close>
  returns normally, and there is still no table.
\<close>

theorem create_table_swallows_access_denied:
  "Database_create_table load_denied no_table = (Inr (), no_table\<lparr>calls := [TableLoad]\<rparr>)"
  by (simp add: Database_create_table_def table_load_def record_call_def Let_def
      load_denied_def healthy_def no_table_def)

text \<open>
  C3, amended. An error of the existence check that is not a \<^verbatim>\<open>ClientError\<close> is
  surfaced to the caller. A \<^verbatim>\<open>ClientError\<close> whose code is not
  \<^verbatim>\<open>ResourceNotFoundException\<close> is swallowed: \<^verbatim>\<open>_create_table\<close> returns
  normally, having printed nothing and made no call but the check, so that no table is
  created.
\<close>

theorem create_table_existence_check_errors:
  "(tbl_load w = Some e \<and> \<not> is_ClientError e \<longrightarrow>
      Database_create_table w s = (Inl e, s\<lparr>calls := calls s @ [TableLoad]\<rparr>)) \<and>
   (tbl_load w' = Some (ClientError code msg) \<and> code \<noteq> ''ResourceNotFoundException'' \<longrightarrow>
      Database_create_table w' s = (Inr (), s\<lparr>calls := calls s @ [TableLoad]\<rparr>))"
  using create_table_not_ClientError [of w e s] create_table_other_code [of w' code msg s]
  by blast

theorem create_table_existence_check_errors_witness:
  "tbl_load load_unreachable = Some (BotoCoreError ''EndpointConnectionError'') \<and>
   \<not> is_ClientError (BotoCoreError ''EndpointConnectionError'') \<and>
   Database_create_table load_unreachable no_table =
     (Inl (BotoCoreError ''EndpointConnectionError''), no_table\<lparr>calls := [TableLoad]\<rparr>) \<and>
   tbl_load load_denied = Some (ClientError ''AccessDeniedException'' ''Access denied'') \<and>
   ''AccessDeniedException'' \<noteq> ''ResourceNotFoundException'' \<and>
   Database_create_table load_denied no_table = (Inr (), no_table\<lparr>calls := [TableLoad]\<rparr>)"
  using create_table_existence_check_errors
    [where w = load_unreachable and e = "BotoCoreError ''EndpointConnectionError''"
       and s = no_table and w' = load_denied and code = "''AccessDeniedException''"
       and msg = "''Access denied''"]
  by (simp add: load_denied_def load_unreachable_def healthy_def no_table_def)

text \<open>
  C4. \<^verbatim>\<open>get_item\<close> never raises: when no row exists for the id it returns absent
  (\<^verbatim>\<open>None\<close>) rather than an error, and on any client or transport error it logs the
  message and also returns absent, so that a caller cannot tell a backend failure from a
  missing item.

  As stated the claim fails: when the table's \<^verbatim>\<open>get_item\<close> raises an exception that is
  not a \<^verbatim>\<open>ClientError\<close> (here the endpoint cannot be reached), the exception leaves
  \<^verbatim>\<open>get_item\<close>.
\<close>

theorem get_item_raises_when_unreachable:
  "fst (get_item get_unreachable (JStr ''1'') empty_stores) =
     Inl (BotoCoreError ''EndpointConnectionError'')"
  by (simp add: get_item_def table_get_item_def Let_def get_unreachable_def healthy_def)

text \<open>
  C4, amended. When no row exists for the id, \<^verbatim>\<open>get_item\<close> returns absent rather than
  an error, and prints nothing. On any \<^verbatim>\<open>ClientError\<close> it prints the message and also
  returns absent, so that a caller cannot tell such a failure from a missing item. An
  exception of the lookup that is not a \<^verbatim>\<open>ClientError\<close> is not caught and reaches the
  caller.
\<close>

theorem get_item_absent_or_ClientError:
  "(table s = Some t \<and> key_string key = Some k \<and> t k = None \<and> tbl_get w = None \<longrightarrow>
      get_item w key s = (Inr None, s\<lparr>calls := calls s @ [TableGetItem key]\<rparr>)) \<and>
   (tbl_get w' = Some (ClientError code msg) \<longrightarrow>
      get_item w' key s =
        (Inr None, s\<lparr>stdout := stdout s @ [msg], calls := calls s @ [TableGetItem key]\<rparr>)) \<and>
   (tbl_get w'' = Some e \<and> \<not> is_ClientError e \<longrightarrow>
      get_item w'' key s = (Inl e, s\<lparr>calls := calls s @ [TableGetItem key]\<rparr>))"
proof -
  have "get_item w key s = (Inr None, s\<lparr>calls := calls s @ [TableGetItem key]\<rparr>)"
    if "table s = Some t" "key_string key = Some k" "t k = None" "tbl_get w = None"
    using get_item_found [OF that(1) that(2) that(4)] that(3) by simp
  then show ?thesis
    using get_item_ClientError [of w' code msg key s] get_item_not_ClientError [of w'' e key s]
    by blast
qed

theorem get_item_absent_or_ClientError_witness:
  "table empty_stores = Some Map.empty \<and> key_string (JStr ''1'') = Some ''1'' \<and>
   tbl_get healthy = None \<and>
   get_item healthy (JStr ''1'') empty_stores =
     (Inr None, empty_stores\<lparr>calls := [TableGetItem (JStr ''1'')]\<rparr>) \<and>
   tbl_get get_throttled = Some (ClientError ''ThrottlingException'' ''Rate exceeded'') \<and>
   get_item get_throttled (JStr ''1'') empty_stores =
     (Inr None,
      empty_stores\<lparr>stdout := [''Rate exceeded''], calls := [TableGetItem (JStr ''1'')]\<rparr>) \<and>
   tbl_get get_unreachable = Some (BotoCoreError ''EndpointConnectionError'') \<and>
   \<not> is_ClientError (BotoCoreError ''EndpointConnectionError'') \<and>
   get_item get_unreachable (JStr ''1'') empty_stores =
     (Inl (BotoCoreError ''EndpointConnectionError''),
      empty_stores\<lparr>calls := [TableGetItem (JStr ''1'')]\<rparr>)"
  using get_item_absent_or_ClientError
    [where s = empty_stores and t = Map.empty and key = "JStr ''1''" and k = "''1''"
       and w = healthy and w' = get_throttled and code = "''ThrottlingException''"
       and msg = "''Rate exceeded''" and w'' = get_unreachable
       and e = "BotoCoreError ''EndpointConnectionError''"]
  by (simp add: empty_stores_def healthy_def key_string_def get_throttled_def
      get_unreachable_def)

text \<open>
  C5. Within every write (\<^verbatim>\<open>put_item\<close>) and every delete (\<^verbatim>\<open>delete_item\<close>), the
  table-store operation is attempted first and the blob-store operation second, and a
  failure of the blob-store operation does not roll back the table-store operation.

  The code at the item of the tests, on empty stores and with both services answering:
  the one call \<^verbatim>\<open>put_item\<close> makes is the table's; the call ends in \<^verbatim>\<open>NameError\<close>
  with the row written, and no blob-store operation has been attempted. For
  \<^verbatim>\<open>delete_item\<close> the order and the absence of a rollback are the lemmas
  \<open>delete_item_order\<close> and \<open>delete_item_no_rollback\<close>.
\<close>

theorem put_item_item_1_makes_no_blob_call:
  "calls (snd (put_item healthy item_1 empty_stores)) = [TablePutItem item_1] \<and>
   fst (put_item healthy item_1 empty_stores) = Inl (NameError ''json'') \<and>
   table (snd (put_item healthy item_1 empty_stores)) = Some [''1'' \<mapsto> item_1] \<and>
   bucket (snd (put_item healthy item_1 empty_stores)) = Map.empty"
  by (simp add: put_item_def load_global_json getitem_def except_ClientError_def client_defs
      serialize_item_error_def healthy_def item_1_def empty_stores_def)

text \<open>
  C6. For every id present in both stores, \<^verbatim>\<open>delete_item\<close> removes both the table row
  and the blob object, so that a subsequent fetch from either store returns absent.

  With the table and the blob store carrying the two deletes out: the call returns
  normally, the row and the object are gone and nothing else has changed; a lookup of the
  id that the services then answer finds nothing in the table and nothing in the bucket.
\<close>

theorem delete_item_removes_both:
  assumes "table s = Some t" and "t k = Some row" and "bucket s k = Some b" and "k \<noteq> []"
    and "tbl_delete w = None" and "s3_delete w = None"
  shows "delete_item w (JStr k) s =
      (Inr (), s\<lparr>table := Some (t(k := None)), bucket := (bucket s)(k := None),
          calls := calls s @ [TableDeleteItem (JStr k), S3DeleteObject (JStr k)]\<rparr>) \<and>
    (tbl_get w' = None \<longrightarrow>
       fst (get_item w' (JStr k) (snd (delete_item w (JStr k) s))) = Inr None) \<and>
    (s3_get w' = None \<longrightarrow>
       fst (S3Bucket_get_object w' (JStr k) (snd (delete_item w (JStr k) s))) = Inr None)"
proof -
  have key: "key_string (JStr k) = Some k"
    using assms(4) by (simp add: key_string_def)
  have del: "delete_item w (JStr k) s =
      (Inr (), s\<lparr>table := Some (t(k := None)), bucket := (bucket s)(k := None),
          calls := calls s @ [TableDeleteItem (JStr k), S3DeleteObject (JStr k)]\<rparr>)"
    by (rule delete_item_done [OF assms(1) key assms(5) assms(6)])
  have "fst (get_item w' (JStr k) (snd (delete_item w (JStr k) s))) = Inr None"
    if "tbl_get w' = None"
    using that by (simp add: del get_item_absent [where t = "t(k := None)"])
  moreover have "fst (S3Bucket_get_object w' (JStr k) (snd (delete_item w (JStr k) s))) = Inr None"
    if "s3_get w' = None"
    using that by (simp add: del S3Bucket_get_object_def record_call_def Let_def)
  ultimately show ?thesis
    using del by blast
qed

theorem delete_item_removes_both_witness:
  "table stores_with_item_1 = Some [''1'' \<mapsto> item_1] \<and>
   [''1'' \<mapsto> item_1] ''1'' = Some item_1 \<and>
   bucket stores_with_item_1 ''1'' = Some (JsonText item_1) \<and> ''1'' \<noteq> [] \<and>
   tbl_delete healthy = None \<and> s3_delete healthy = None \<and>
   tbl_get healthy = None \<and> s3_get healthy = None \<and>
   delete_item healthy (JStr ''1'') stores_with_item_1 =
     (Inr (), empty_stores\<lparr>calls := [TableDeleteItem (JStr ''1''), S3DeleteObject (JStr ''1'')]\<rparr>) \<and>
   fst (get_item healthy (JStr ''1'') (snd (delete_item healthy (JStr ''1'') stores_with_item_1))) =
     Inr None \<and>
   fst (S3Bucket_get_object healthy (JStr ''1'')
          (snd (delete_item healthy (JStr ''1'') stores_with_item_1))) = Inr None"
proof -
  have h: "table stores_with_item_1 = Some [''1'' \<mapsto> item_1]"
      "[''1'' \<mapsto> item_1] ''1'' = Some item_1"
      "bucket stores_with_item_1 ''1'' = Some (JsonText item_1)" "''1'' \<noteq> []"
      "tbl_delete healthy = None" "s3_delete healthy = None"
      "tbl_get healthy = None" "s3_get healthy = None"
    by (simp_all add: stores_with_item_1_def healthy_def)
  have e: "stores_with_item_1\<lparr>table := Some ([''1'' \<mapsto> item_1](''1'' := None)),
        bucket := (bucket stores_with_item_1)(''1'' := None),
        calls := calls stores_with_item_1 @ [TableDeleteItem (JStr ''1''), S3DeleteObject (JStr ''1'')]\<rparr> =
      empty_stores\<lparr>calls := [TableDeleteItem (JStr ''1''), S3DeleteObject (JStr ''1'')]\<rparr>"
    by (simp add: stores_with_item_1_def empty_stores_def)
  note del = delete_item_removes_both
      [where w' = healthy, OF h(1) h(2) h(3) h(4) h(5) h(6)]
  have a: "delete_item healthy (JStr ''1'') stores_with_item_1 =
      (Inr (), empty_stores\<lparr>calls := [TableDeleteItem (JStr ''1''), S3DeleteObject (JStr ''1'')]\<rparr>)"
    by (simp only: del [THEN conjunct1] e)
  have b: "fst (get_item healthy (JStr ''1'')
      (snd (delete_item healthy (JStr ''1'') stores_with_item_1))) = Inr None"
    using del h(7) by blast
  have c: "fst (S3Bucket_get_object healthy (JStr ''1'')
      (snd (delete_item healthy (JStr ''1'') stores_with_item_1))) = Inr None"
    using del h(8) by blast
  show ?thesis
    by (intro conjI) (fact h a b c)+
qed

text \<open>
  C7. For every item whose id already exists in the store, a create request (POST) yields
  a 409 conflict response with body \<^verbatim>\<open>{"error":"Item already exists"}\<close> and leaves the
  stored values of both stores unchanged.

  With the table answering the pre-check: the reply is the 409, and the one thing that
  has happened is the lookup.
\<close>

theorem post_existing_id_conflict:
  assumes "table s = Some t" and "map_of item ''id'' = Some (JStr k)" and "k \<noteq> []"
    and "t k = Some row" and "tbl_get w = None"
  shows "handle w (POST ''/item'' item) s =
      (Inr (Reply 409 (ErrorBody ''Item already exists'')),
       s\<lparr>calls := calls s @ [TableGetItem (JStr k)]\<rparr>) \<and>
    table (snd (handle w (POST ''/item'' item) s)) = table s \<and>
    bucket (snd (handle w (POST ''/item'' item) s)) = bucket s"
proof -
  have key: "key_string (JStr k) = Some k"
    using assms(3) by (simp add: key_string_def)
  show ?thesis
    using assms(2) assms(4)
    by (simp add: handle_def do_POST_def getitem_def get_item_found [OF assms(1) key assms(5)])
qed

theorem post_existing_id_conflict_witness:
  "table stores_with_item_1 = Some [''1'' \<mapsto> item_1] \<and>
   map_of item_1 ''id'' = Some (JStr ''1'') \<and> ''1'' \<noteq> [] \<and>
   [''1'' \<mapsto> item_1] ''1'' = Some item_1 \<and> tbl_get healthy = None \<and>
   handle healthy (POST ''/item'' item_1) stores_with_item_1 =
     (Inr (Reply 409 (ErrorBody ''Item already exists'')),
      stores_with_item_1\<lparr>calls := calls stores_with_item_1 @ [TableGetItem (JStr ''1'')]\<rparr>)"
proof -
  have h: "table stores_with_item_1 = Some [''1'' \<mapsto> item_1]"
      "map_of item_1 ''id'' = Some (JStr ''1'')" "''1'' \<noteq> []"
      "[''1'' \<mapsto> item_1] ''1'' = Some item_1" "tbl_get healthy = None"
    by (simp_all add: stores_with_item_1_def item_1_def healthy_def)
  show ?thesis
    using h post_existing_id_conflict
      [where s = stores_with_item_1 and t = "[''1'' \<mapsto> item_1]" and item = item_1
         and k = "''1''" and row = item_1 and w = healthy]
    by simp
qed

text \<open>
  C8. For every update request (PUT) targeting an id not present in the store, the
  response is 404 with body \<^verbatim>\<open>{"error":"Item not found"}\<close> and nothing is created in
  either store.

  With the table answering the pre-check: the reply is the 404, both stores are as they
  were, and the one call made is the lookup.
\<close>

theorem put_absent_id_not_found:
  assumes "table s = Some t" and "map_of item ''id'' = Some (JStr k)" and "t k = None"
    and "tbl_get w = None"
  shows "fst (handle w (PUT ''/item'' item) s) = Inr (Reply 404 (ErrorBody ''Item not found'')) \<and>
    table (snd (handle w (PUT ''/item'' item) s)) = table s \<and>
    bucket (snd (handle w (PUT ''/item'' item) s)) = bucket s \<and>
    calls (snd (handle w (PUT ''/item'' item) s)) = calls s @ [TableGetItem (JStr k)]"
proof -
  have absent: "fst (get_item w (JStr k) s) = Inr None"
    by (rule get_item_absent [OF assms(1) assms(3) assms(4)])
  obtain s1 where g: "get_item w (JStr k) s = (Inr None, s1)"
    using absent by (cases "get_item w (JStr k) s") simp
  have s1: "table s1 = table s \<and> bucket s1 = bucket s \<and>
      calls s1 = calls s @ [TableGetItem (JStr k)]"
    using get_item_stores [of w "JStr k" s] g by simp
  show ?thesis
    using assms(2) s1 by (simp add: handle_def do_PUT_def getitem_def g)
qed

theorem put_absent_id_not_found_witness:
  "table empty_stores = Some Map.empty \<and> map_of item_1 ''id'' = Some (JStr ''1'') \<and>
   tbl_get healthy = None \<and>
   fst (handle healthy (PUT ''/item'' item_1) empty_stores) =
     Inr (Reply 404 (ErrorBody ''Item not found'')) \<and>
   table (snd (handle healthy (PUT ''/item'' item_1) empty_stores)) = Some Map.empty \<and>
   bucket (snd (handle healthy (PUT ''/item'' item_1) empty_stores)) = Map.empty \<and>
   calls (snd (handle healthy (PUT ''/item'' item_1) empty_stores)) =
     [TableGetItem (JStr ''1'')]"
proof -
  have h: "table empty_stores = Some Map.empty" "map_of item_1 ''id'' = Some (JStr ''1'')"
      "Map.empty ''1'' = (None :: item option)" "tbl_get healthy = None"
    by (simp_all add: empty_stores_def item_1_def healthy_def)
  show ?thesis
    using h put_absent_id_not_found
      [where s = empty_stores and t = Map.empty and item = item_1 and k = "''1''"
         and w = healthy]
    by (simp add: empty_stores_def)
qed

text \<open>
  C9. Store-layer delete is idempotent: for every id, \<^verbatim>\<open>delete_item\<close> on an absent id
  is not an error and leaves the state unchanged, so that deleting the same id twice in a
  row is equivalent to deleting it once at the store layer, while at the HTTP layer the
  second delete yields a not-found response.

  With the table existing and the two services carrying the deletes out: a delete of an id
  that is in neither store returns normally and leaves both stores as they were; a second
  delete after a first returns normally and leaves both stores as the first left them;
  and of two DELETE requests for an id that has a row, the first is answered 200 and the
  second 404.
\<close>

theorem delete_item_idempotent:
  assumes "table s = Some t" and "tbl_delete w1 = None" and "s3_delete w1 = None"
    and "tbl_delete w2 = None" and "s3_delete w2 = None"
  shows "(t k = None \<and> bucket s k = None \<longrightarrow>
       fst (delete_item w1 (JStr k) s) = Inr () \<and>
       table (snd (delete_item w1 (JStr k) s)) = table s \<and>
       bucket (snd (delete_item w1 (JStr k) s)) = bucket s) \<and>
    fst (delete_item w2 (JStr k) (snd (delete_item w1 (JStr k) s))) = Inr () \<and>
    table (snd (delete_item w2 (JStr k) (snd (delete_item w1 (JStr k) s)))) =
      table (snd (delete_item w1 (JStr k) s)) \<and>
    bucket (snd (delete_item w2 (JStr k) (snd (delete_item w1 (JStr k) s)))) =
      bucket (snd (delete_item w1 (JStr k) s)) \<and>
    (k \<noteq> [] \<and> t k = Some row \<and> tbl_get w1 = None \<and> tbl_get w2 = None \<longrightarrow>
       fst (handle w1 (DELETE (''/item/'' @ k)) s) =
         Inr (Reply 200 (MessageBody ''Item deleted'')) \<and>
       fst (handle w2 (DELETE (''/item/'' @ k)) (snd (handle w1 (DELETE (''/item/'' @ k)) s))) =
         Inr (Reply 404 (ErrorBody ''Item not found'')))"
proof (cases "k = []")
  case True
  note once = delete_item_refused [OF assms(1) assms(2)]
  from once assms(1) have "table (snd (delete_item w1 (JStr []) s)) = Some t"
    by simp
  note twice = delete_item_refused [OF this assms(4)]
  show ?thesis
    using True once twice by simp
next
  case False
  then have key: "key_string (JStr k) = Some k"
    by (simp add: key_string_def)
  note once = delete_item_done [OF assms(1) key assms(2) assms(3)]
  have absent: "t(k := None) = t \<and> (bucket s)(k := None) = bucket s"
    if "t k = None" "bucket s k = None"
    using that by (simp add: fun_upd_idem)
  have store: "fst (delete_item w1 (JStr k) s) = Inr () \<and>
      table (snd (delete_item w1 (JStr k) s)) = table s \<and>
      bucket (snd (delete_item w1 (JStr k) s)) = bucket s"
    if "t k = None" "bucket s k = None"
    using absent [OF that] assms(1) by (simp add: once)
  have twice: "fst (delete_item w2 (JStr k) (snd (delete_item w1 (JStr k) s))) = Inr () \<and>
      table (snd (delete_item w2 (JStr k) (snd (delete_item w1 (JStr k) s)))) =
        table (snd (delete_item w1 (JStr k) s)) \<and>
      bucket (snd (delete_item w2 (JStr k) (snd (delete_item w1 (JStr k) s)))) =
        bucket (snd (delete_item w1 (JStr k) s))"
    by (simp add: once delete_item_done [OF _ key assms(4) assms(5)])
  have http: "fst (handle w1 (DELETE (''/item/'' @ k)) s) =
        Inr (Reply 200 (MessageBody ''Item deleted'')) \<and>
      fst (handle w2 (DELETE (''/item/'' @ k)) (snd (handle w1 (DELETE (''/item/'' @ k)) s))) =
        Inr (Reply 404 (ErrorBody ''Item not found''))"
    if "t k = Some row" "tbl_get w1 = None" "tbl_get w2 = None"
  proof -
    define p where "p = ''/item/'' @ k"
    have pid: "item_path_id p = Some k"
      by (simp add: p_def item_path_id_def)
    have first: "handle w1 (DELETE p) s =
        (Inr (Reply 200 (MessageBody ''Item deleted'')),
         s\<lparr>table := Some (t(k := None)), bucket := (bucket s)(k := None),
           calls := calls s @ [TableGetItem (JStr k), TableDeleteItem (JStr k),
             S3DeleteObject (JStr k)]\<rparr>)"
      using False that(1) assms(1)
      by (simp add: handle_def do_DELETE_def pid
          get_item_found [OF assms(1) key that(2)]
          delete_item_done [OF _ key assms(2) assms(3)])
    have second: "fst (handle w2 (DELETE p) (snd (handle w1 (DELETE p) s))) =
        Inr (Reply 404 (ErrorBody ''Item not found''))"
      using False
      by (simp only: first snd_conv)
        (simp add: handle_def do_DELETE_def pid get_item_found [OF _ key that(3)])
    show ?thesis
      using first second by (simp add: p_def)
  qed
  show ?thesis
    using store twice http by blast
qed

theorem delete_item_idempotent_witness:
  "table stores_with_item_1 = Some [''1'' \<mapsto> item_1] \<and>
   table empty_stores = Some Map.empty \<and> bucket empty_stores ''1'' = None \<and>
   tbl_delete healthy = None \<and> s3_delete healthy = None \<and> tbl_get healthy = None \<and>
   fst (delete_item healthy (JStr ''1'') empty_stores) = Inr () \<and>
   table (snd (delete_item healthy (JStr ''1'') empty_stores)) = table empty_stores \<and>
   bucket (snd (delete_item healthy (JStr ''1'') empty_stores)) = bucket empty_stores \<and>
   fst (delete_item healthy (JStr ''1'')
          (snd (delete_item healthy (JStr ''1'') stores_with_item_1))) = Inr () \<and>
   table (snd (delete_item healthy (JStr ''1'')
          (snd (delete_item healthy (JStr ''1'') stores_with_item_1)))) =
     table (snd (delete_item healthy (JStr ''1'') stores_with_item_1)) \<and>
   bucket (snd (delete_item healthy (JStr ''1'')
          (snd (delete_item healthy (JStr ''1'') stores_with_item_1)))) =
     bucket (snd (delete_item healthy (JStr ''1'') stores_with_item_1)) \<and>
   fst (handle healthy (DELETE ''/item/1'') stores_with_item_1) =
     Inr (Reply 200 (MessageBody ''Item deleted'')) \<and>
   fst (handle healthy (DELETE ''/item/1'')
          (snd (handle healthy (DELETE ''/item/1'') stores_with_item_1))) =
     Inr (Reply 404 (ErrorBody ''Item not found''))"
proof -
  have h: "table stores_with_item_1 = Some [''1'' \<mapsto> item_1]"
      "table empty_stores = Some Map.empty"
      "tbl_delete healthy = None" "s3_delete healthy = None" "tbl_get healthy = None"
      "bucket empty_stores ''1'' = None"
    by (simp_all add: stores_with_item_1_def empty_stores_def healthy_def)
  note absent = delete_item_idempotent
      [where k = "''1''" and row = item_1, OF h(2) h(3) h(4) h(3) h(4)]
  note present = delete_item_idempotent
      [where k = "''1''" and row = item_1, OF h(1) h(3) h(4) h(3) h(4)]
  have a: "fst (delete_item healthy (JStr ''1'') empty_stores) = Inr () \<and>
      table (snd (delete_item healthy (JStr ''1'') empty_stores)) = table empty_stores \<and>
      bucket (snd (delete_item healthy (JStr ''1'') empty_stores)) = bucket empty_stores"
    using absent h(6) by simp
  have b: "fst (handle healthy (DELETE ''/item/1'') stores_with_item_1) =
        Inr (Reply 200 (MessageBody ''Item deleted'')) \<and>
      fst (handle healthy (DELETE ''/item/1'')
          (snd (handle healthy (DELETE ''/item/1'') stores_with_item_1))) =
        Inr (Reply 404 (ErrorBody ''Item not found''))"
    using present h(5) by simp
  show ?thesis
    using h a b present by blast
qed

text \<open>
  C10. For every GET request whose path is \<^verbatim>\<open>/item/\<close>, with an empty id segment, the
  response is 400 with body \<^verbatim>\<open>{"error":"Item ID not provided"}\<close>, and no storage
  operation is performed.

  The state after the request is the state before it, the record of the calls included.
\<close>

theorem get_empty_id_bad_request:
  "handle w (GET ''/item/'') s = (Inr (Reply 400 (ErrorBody ''Item ID not provided'')), s)"
  by (simp add: handle_def do_GET_def item_path_id_def)

end
